theory Spec2Isabelle
  imports Complex_Main
begin

section \<open>Host-language arithmetic and strings\<close>

text \<open>
  Instants are whole milliseconds since the epoch, as \<open>Date.now()\<close> and \<open>getTime()\<close>
  return them; they are modelled as \<open>int\<close> (every value the program meets lies far
  inside the range where a double is an exact integer).

  The remainder operator \<open>%\<close> truncates towards zero: the result has the sign of the
  dividend.
\<close>

definition js_rem :: "int \<Rightarrow> int \<Rightarrow> int" where
  "js_rem a b = sgn a * (\<bar>a\<bar> mod \<bar>b\<bar>)"

text \<open>\<open>Math.floor(a / b)\<close>: the quotient is taken in the reals and then rounded down.\<close>

definition Math_floor_div :: "int \<Rightarrow> int \<Rightarrow> int" where
  "Math_floor_div a b = \<lfloor>real_of_int a / real_of_int b\<rfloor>"

text \<open>
  \<open>String(num)\<close> for an integer: its decimal digits, with a minus sign when negative
  (the plain decimal form is what the host prints for every integer below \<open>10^21\<close>).
\<close>

definition digit_char :: "nat \<Rightarrow> char" where
  "digit_char d = ''0123456789'' ! d"

function digits10 :: "nat \<Rightarrow> string" where
  "digits10 n = (if n < 10 then [digit_char n] else digits10 (n div 10) @ [digit_char (n mod 10)])"
  by pat_completeness auto
termination
  by (relation "measure id") auto

declare digits10.simps [simp del]

definition String_num :: "int \<Rightarrow> string" where
  "String_num n = (if n < 0 then CHR ''-'' # digits10 (nat (- n)) else digits10 (nat n))"

text \<open>
  \<open>str.padStart(targetLength, padString)\<close>: a string already long enough, or an empty
  pad string, gives \<open>str\<close> back; otherwise the pad string is repeated and cut to the
  missing length, and put in front.
\<close>

definition padStart :: "string \<Rightarrow> nat \<Rightarrow> string \<Rightarrow> string" where
  "padStart str targetLength padString =
     (if targetLength \<le> length str \<or> padString = [] then str
      else take (targetLength - length str)
             (concat (replicate (targetLength - length str) padString)) @ str)"

text \<open>\<open>pad(num, digits = 2)\<close>; the default width is passed explicitly as \<open>2\<close>.\<close>

definition pad :: "int \<Rightarrow> nat \<Rightarrow> string" where
  "pad num digits = padStart (String_num num) digits ''0''"


section \<open>Program state\<close>

text \<open>
  The module-level variables of \<open>sketch.js\<close>. The object \<open>animatingElements\<close> has the
  four keys \<open>days\<close>, \<open>hours\<close>, \<open>minutes\<close>, \<open>seconds\<close> and is a function from the key to
  its flag. A \<open>setTimeout\<close> call appends its callback to \<open>timers\<close>: the delay in
  milliseconds and the key whose flag the callback resets.
\<close>

datatype field = Days | Hours | Minutes | Seconds

record cstate =
  targetDate :: int
  days :: int
  hours :: int
  minutes :: int
  seconds :: int
  prevDays :: int
  prevHours :: int
  prevMinutes :: int
  prevSeconds :: int
  animatingElements :: "field \<Rightarrow> bool"
  timers :: "(nat \<times> field) list"
  lastUpdateTime :: real

text \<open>
  The font-cycling variant (\<open>unnamed/part_000\<close>) has the same variables and three more.
  An index is \<open>None\<close> when it is \<open>NaN\<close>, and \<open>currentFont\<close> is \<open>None\<close> when it is
  \<open>undefined\<close>.
\<close>

record fstate = cstate +
  currentFontIndex :: "int option"
  previousFontIndex :: "int option"
  currentFont :: "string option"

definition updateInterval :: real where
  "updateInterval = 250"

text \<open>
  The initial values of the variables. \<open>targetDate\<close> is declared without a value and
  assigned by \<open>setup\<close> before anything reads it, so the initial state takes it as its
  argument.
\<close>

definition globals :: "int \<Rightarrow> cstate" where
  "globals T = \<lparr> targetDate = T, days = 0, hours = 0, minutes = 0, seconds = 0,
       prevDays = - 1, prevHours = - 1, prevMinutes = - 1, prevSeconds = - 1,
       animatingElements = (\<lambda>_. False), timers = [], lastUpdateTime = 0 \<rparr>"

text \<open>The value of a display variable and of its recorded previous value, by key.\<close>

fun shown :: "field \<Rightarrow> 'a cstate_scheme \<Rightarrow> int" where
  "shown Days s = days s"
| "shown Hours s = hours s"
| "shown Minutes s = minutes s"
| "shown Seconds s = seconds s"

fun prev :: "field \<Rightarrow> 'a cstate_scheme \<Rightarrow> int" where
  "prev Days s = prevDays s"
| "prev Hours s = prevHours s"
| "prev Minutes s = prevMinutes s"
| "prev Seconds s = prevSeconds s"


section \<open>The countdown of sketch.js\<close>

text \<open>
  One branch of the change detection:
  \<open>animatingElements.f = true; setTimeout(() => { animatingElements.f = false; }, 200)\<close>.
\<close>

definition pulse :: "field \<Rightarrow> 'a cstate_scheme \<Rightarrow> 'a cstate_scheme" where
  "pulse f s = s\<lparr> animatingElements := (animatingElements s)(f := True),
                 timers := timers s @ [(200, f)] \<rparr>"

text \<open>The callback that such a timer runs.\<close>

definition fireTimer :: "field \<Rightarrow> 'a cstate_scheme \<Rightarrow> 'a cstate_scheme" where
  "fireTimer f s = s\<lparr> animatingElements := (animatingElements s)(f := False) \<rparr>"

text \<open>
  \<open>updateCountdown()\<close>, with the reading of \<open>Date.now()\<close> as its argument. It returns
  the completion flag and the new state.
\<close>

definition updateCountdown :: "int \<Rightarrow> 'a cstate_scheme \<Rightarrow> bool \<times> 'a cstate_scheme" where
  "updateCountdown now s =
     (let target = targetDate s;
          difference = target - now
      in if difference \<le> 0
         then (True, s\<lparr> days := 0, hours := 0, minutes := 0, seconds := 0 \<rparr>)
         else
           let s1 = s\<lparr> days := Math_floor_div difference (1000 * 60 * 60 * 24),
                       hours := Math_floor_div (js_rem difference (1000 * 60 * 60 * 24)) (1000 * 60 * 60),
                       minutes := Math_floor_div (js_rem difference (1000 * 60 * 60)) (1000 * 60),
                       seconds := Math_floor_div (js_rem difference (1000 * 60)) 1000 \<rparr>;
               s2 = (if prevDays s1 \<noteq> days s1 then pulse Days s1 else s1);
               s3 = (if prevHours s2 \<noteq> hours s2 then pulse Hours s2 else s2);
               s4 = (if prevMinutes s3 \<noteq> minutes s3 then pulse Minutes s3 else s3);
               s5 = (if prevSeconds s4 \<noteq> seconds s4 then pulse Seconds s4 else s4)
           in (False, s5\<lparr> prevDays := days s5, prevHours := hours s5,
                           prevMinutes := minutes s5, prevSeconds := seconds s5 \<rparr>))"

text \<open>The four expressions that \<open>updateCountdown\<close> assigns, by key.\<close>

fun component :: "field \<Rightarrow> int \<Rightarrow> int" where
  "component Days difference = Math_floor_div difference (1000 * 60 * 60 * 24)"
| "component Hours difference =
     Math_floor_div (js_rem difference (1000 * 60 * 60 * 24)) (1000 * 60 * 60)"
| "component Minutes difference =
     Math_floor_div (js_rem difference (1000 * 60 * 60)) (1000 * 60)"
| "component Seconds difference = Math_floor_div (js_rem difference (1000 * 60)) 1000"

text \<open>
  The host's \<open>Date\<close>: \<open>mkDate y m d\<close> is the time value of
  \<open>new Date(y, m, d, 0, 0, 0, 0)\<close>, local midnight of day \<open>d\<close> of month \<open>m\<close> (counted
  from 0) of year \<open>y\<close>, and \<open>getFullYear t\<close> is the local calendar year of the instant
  \<open>t\<close>. A \<open>Date\<close> object is modelled by its time value.
\<close>

record dateHost =
  mkDate :: "int \<Rightarrow> int \<Rightarrow> int \<Rightarrow> int"
  getFullYear :: "int \<Rightarrow> int"

text \<open>\<open>getTargetDate()\<close> of \<open>sketch.js\<close>; \<open>now\<close> is the time value of \<open>new Date()\<close>.\<close>

definition getTargetDate :: "dateHost \<Rightarrow> int \<Rightarrow> int" where
  "getTargetDate host now =
     (let currentYear = getFullYear host now;
          april11ThisYear = mkDate host currentYear 3 11
      in if now > april11ThisYear then mkDate host (currentYear + 1) 3 11
         else april11ThisYear)"

text \<open>
  The function \<open>setup()\<close> (its name is reserved here): the target is resolved from one clock reading, and the first
  \<open>updateCountdown()\<close> takes another (the canvas calls have no effect on the state).
\<close>

definition setup_sketch :: "dateHost \<Rightarrow> int \<Rightarrow> int \<Rightarrow> cstate" where
  "setup_sketch host t0 t1 = snd (updateCountdown t1 (globals (getTargetDate host t0)))"

text \<open>
  The throttle at the head of \<open>draw()\<close>: \<open>now\<close> is the reading of \<open>millis()\<close>, \<open>clock\<close>
  the reading of \<open>Date.now()\<close> that \<open>updateCountdown\<close> would take. The first component
  is the block's local \<open>isComplete\<close>, \<open>None\<close> on a frame that skips the block. The rest
  of \<open>draw()\<close> only reads the state.
\<close>

definition draw :: "real \<Rightarrow> int \<Rightarrow> 'a cstate_scheme \<Rightarrow> bool option \<times> 'a cstate_scheme" where
  "draw now clock s =
     (if now - lastUpdateTime s \<ge> updateInterval
      then (let (isComplete, s1) = updateCountdown clock s
            in (Some isComplete, s1\<lparr> lastUpdateTime := now \<rparr>))
      else (None, s))"

text \<open>Consecutive calls of \<open>updateCountdown\<close>, one per clock reading: the results in order.\<close>

fun samples :: "int list \<Rightarrow> 'a cstate_scheme \<Rightarrow> (bool \<times> 'a cstate_scheme) list" where
  "samples [] s = []"
| "samples (now # nows) s = updateCountdown now s # samples nows (snd (updateCountdown now s))"

text \<open>The total of a sample in seconds.\<close>

definition totalSeconds :: "'a cstate_scheme \<Rightarrow> int" where
  "totalSeconds s = days s * 86400 + hours s * 3600 + minutes s * 60 + seconds s"


text \<open>
  What the host runs after \<open>setup()\<close>: frames, each with its readings of \<open>millis()\<close>
  and \<open>Date.now()\<close>, and timer callbacks.
\<close>

datatype event = Frame real int | Timeout field

fun run :: "event list \<Rightarrow> 'a cstate_scheme \<Rightarrow> 'a cstate_scheme" where
  "run [] s = s"
| "run (Frame ms clock # es) s = run es (snd (draw ms clock s))"
| "run (Timeout f # es) s = run es (fireTimer f s)"

text \<open>The readings of \<open>millis()\<close> of the frames that call \<open>updateCountdown\<close>, in order.\<close>

fun sampleTimes :: "(real \<times> int) list \<Rightarrow> 'a cstate_scheme \<Rightarrow> real list" where
  "sampleTimes [] s = []"
| "sampleTimes ((ms, clock) # frames) s =
     (case fst (draw ms clock s) of
        None \<Rightarrow> sampleTimes frames (snd (draw ms clock s))
      | Some isComplete \<Rightarrow> ms # sampleTimes frames (snd (draw ms clock s)))"

text \<open>
  An instance of the host's \<open>Date\<close> for evaluation: the proleptic Gregorian calendar
  in UTC, for a month index from 0 to 11 and a day of that month.
\<close>

definition daysFromCivil :: "int \<Rightarrow> int \<Rightarrow> int \<Rightarrow> int" where
  "daysFromCivil y m d =
     (let y1 = (if m \<le> 2 then y - 1 else y);
          era = y1 div 400;
          yoe = y1 - era * 400;
          mp = (m + 9) mod 12;
          doy = (153 * mp + 2) div 5 + d - 1;
          doe = yoe * 365 + yoe div 4 - yoe div 100 + doy
      in era * 146097 + doe - 719468)"

definition yearFromDays :: "int \<Rightarrow> int" where
  "yearFromDays z =
     (let z1 = z + 719468;
          era = z1 div 146097;
          doe = z1 - era * 146097;
          yoe = (doe - doe div 1460 + doe div 36524 - doe div 146096) div 365;
          doy = doe - (365 * yoe + yoe div 4 - yoe div 100);
          mp = (5 * doy + 2) div 153;
          m = (if mp < 10 then mp + 3 else mp - 9)
      in yoe + era * 400 + (if m \<le> 2 then 1 else 0))"

definition utcHost :: dateHost where
  "utcHost = \<lparr> mkDate = (\<lambda>y m d. daysFromCivil y (m + 1) d * 86400000),
                getFullYear = (\<lambda>t. yearFromDays (t div 86400000)) \<rparr>"


section \<open>The font-cycling variant (unnamed/part\_000)\<close>

text \<open>\<open>fonts[i]\<close>: \<open>undefined\<close> outside the list and at \<open>NaN\<close>.\<close>

definition fontAt :: "string list \<Rightarrow> int option \<Rightarrow> string option" where
  "fontAt fonts i =
     (case i of None \<Rightarrow> None
      | Some k \<Rightarrow> if 0 \<le> k \<and> k < int (length fonts) then Some (fonts ! nat k) else None)"

text \<open>\<open>(i + 1) % fonts.length\<close>: \<open>NaN\<close> when \<open>i\<close> is \<open>NaN\<close> or the list is empty.\<close>

definition nextIndex :: "string list \<Rightarrow> int option \<Rightarrow> int option" where
  "nextIndex fonts i =
     (case i of None \<Rightarrow> None
      | Some k \<Rightarrow> if fonts = [] then None else Some (js_rem (k + 1) (int (length fonts))))"

text \<open>
  \<open>getNextFont()\<close>, with the constant list \<open>fonts\<close> as a parameter. The strict equality
  \<open>===\<close> is false whenever a side is \<open>NaN\<close>.
\<close>

definition getNextFont :: "string list \<Rightarrow> fstate \<Rightarrow> string option \<times> fstate" where
  "getNextFont fonts s =
     (let s1 = s\<lparr> currentFontIndex := nextIndex fonts (currentFontIndex s) \<rparr>;
          s2 = (if currentFontIndex s1 \<noteq> None \<and> currentFontIndex s1 = previousFontIndex s1
                   \<and> length fonts > 1
                then s1\<lparr> currentFontIndex := nextIndex fonts (currentFontIndex s1) \<rparr>
                else s1);
          s3 = s2\<lparr> previousFontIndex := currentFontIndex s2 \<rparr>
      in (fontAt fonts (currentFontIndex s3), s3))"

text \<open>The index that \<open>getNextFont\<close> selects, as a function of the two indices it reads.\<close>

definition selectedIndex :: "string list \<Rightarrow> int option \<Rightarrow> int option \<Rightarrow> int option" where
  "selectedIndex fonts cur prv =
     (let c1 = nextIndex fonts cur
      in if c1 \<noteq> None \<and> c1 = prv \<and> length fonts > 1 then nextIndex fonts c1 else c1)"


text \<open>The test \<open>hasChanged\<close> of the variant's \<open>updateCountdown\<close>, on the new values.\<close>

definition anyChanged :: "'a cstate_scheme \<Rightarrow> bool" where
  "anyChanged s \<longleftrightarrow>
     prevDays s \<noteq> days s \<or> prevHours s \<noteq> hours s \<or>
     prevMinutes s \<noteq> minutes s \<or> prevSeconds s \<noteq> seconds s"

text \<open>\<open>updateCountdown()\<close> of the variant.\<close>

definition updateCountdown_font :: "string list \<Rightarrow> int \<Rightarrow> fstate \<Rightarrow> bool \<times> fstate" where
  "updateCountdown_font fonts now s =
     (let target = targetDate s;
          difference = target - now
      in if difference \<le> 0
         then (True, s\<lparr> days := 0, hours := 0, minutes := 0, seconds := 0 \<rparr>)
         else
           let s1 = s\<lparr> days := Math_floor_div difference (1000 * 60 * 60 * 24),
                       hours := Math_floor_div (js_rem difference (1000 * 60 * 60 * 24)) (1000 * 60 * 60),
                       minutes := Math_floor_div (js_rem difference (1000 * 60 * 60)) (1000 * 60),
                       seconds := Math_floor_div (js_rem difference (1000 * 60)) 1000 \<rparr>;
               hasChanged = anyChanged s1;
               s5 = (if hasChanged then
                       let s2 = (if prevDays s1 \<noteq> days s1 then pulse Days s1 else s1);
                           s3 = (if prevHours s2 \<noteq> hours s2 then pulse Hours s2 else s2);
                           s4 = (if prevMinutes s3 \<noteq> minutes s3 then pulse Minutes s3 else s3)
                       in (if prevSeconds s4 \<noteq> seconds s4 then pulse Seconds s4 else s4)
                     else s1);
               s6 = (if hasChanged then
                       let (newFontName, t) = getNextFont fonts s5
                       in t\<lparr> currentFont := newFontName \<rparr>
                     else s5)
           in (False, s6\<lparr> prevDays := days s6, prevHours := hours s6,
                           prevMinutes := minutes s6, prevSeconds := seconds s6 \<rparr>))"

text \<open>
  The variant's initial state as \<open>setup()\<close> leaves it just before its first
  \<open>updateCountdown()\<close>: the target assigned, \<open>currentFont = fonts[0]\<close>.
\<close>

definition globals_font :: "string list \<Rightarrow> int \<Rightarrow> fstate" where
  "globals_font fonts T = \<lparr> targetDate = T, days = 0, hours = 0, minutes = 0, seconds = 0,
       prevDays = - 1, prevHours = - 1, prevMinutes = - 1, prevSeconds = - 1,
       animatingElements = (\<lambda>_. False), timers = [], lastUpdateTime = 0,
       currentFontIndex = Some 0, previousFontIndex = Some (- 1),
       currentFont = fontAt fonts (Some 0) \<rparr>"

text \<open>The variant's \<open>draw()\<close> has the same throttle.\<close>

definition draw_font :: "string list \<Rightarrow> real \<Rightarrow> int \<Rightarrow> fstate \<Rightarrow> bool option \<times> fstate" where
  "draw_font fonts now clock s =
     (if now - lastUpdateTime s \<ge> updateInterval
      then (let (isComplete, s1) = updateCountdown_font fonts clock s
            in (Some isComplete, s1\<lparr> lastUpdateTime := now \<rparr>))
      else (None, s))"

fun samples_font :: "string list \<Rightarrow> int list \<Rightarrow> fstate \<Rightarrow> (bool \<times> fstate) list" where
  "samples_font fonts [] s = []"
| "samples_font fonts (now # nows) s =
     updateCountdown_font fonts now s
       # samples_font fonts nows (snd (updateCountdown_font fonts now s))"




text \<open>The list of fonts of the repository.\<close>

definition fonts_list :: "string list" where
  "fonts_list = [''Roboto Mono'', ''Space Mono'', ''JetBrains Mono'', ''Fira Code'',
     ''Source Code Pro'', ''IBM Plex Mono'', ''PT Mono'', ''Share Tech Mono'', ''VT323'',
     ''Orbitron'', ''Rajdhani'', ''Quantico'', ''Courier New'', ''monospace'']"



section \<open>Arithmetic of the decomposition\<close>

lemma js_rem_pos: "0 \<le> a \<Longrightarrow> 0 < b \<Longrightarrow> js_rem a b = a mod b"
  by (cases "a = 0") (simp_all add: js_rem_def)

lemma Math_floor_div_eq: "Math_floor_div a b = a div b"
  unfolding Math_floor_div_def by (rule floor_divide_of_int_eq)

lemma mod_div_ms:
  fixes d :: int
  assumes "0 \<le> k"
  shows "(d mod (1000 * k)) div 1000 = (d div 1000) mod k"
proof -
  have "d mod (1000 * k) = 1000 * (d div 1000 mod k) + d mod 1000"
    using assms by (rule zmod_zmult2_eq)
  then show ?thesis by simp
qed

lemma unit_of_seconds:
  fixes d :: int
  assumes "0 \<le> k" "0 < u"
  shows "(d mod (1000 * (u * k))) div (1000 * u) = ((d div 1000) mod (u * k)) div u"
proof -
  have "(d mod (1000 * (u * k))) div (1000 * u) = (d mod (1000 * (u * k))) div 1000 div u"
    using assms by (simp add: zdiv_zmult2_eq)
  also have "\<dots> = ((d div 1000) mod (u * k)) div u"
    using assms by (simp add: mod_div_ms)
  finally show ?thesis .
qed

lemma seconds_split:
  fixes q :: int
  shows "q div 86400 * 86400 + (q mod 86400) div 3600 * 3600 + (q mod 3600) div 60 * 60 + q mod 60 = q"
proof -
  have a: "q mod 3600 = (q mod 86400) mod 3600" by (simp add: mod_mod_cancel)
  have b: "q mod 60 = (q mod 3600) mod 60" by (simp add: mod_mod_cancel)
  have "q = q div 86400 * 86400 + q mod 86400" by simp
  moreover have "q mod 86400 = (q mod 86400) div 3600 * 3600 + (q mod 86400) mod 3600" by simp
  moreover have "q mod 3600 = (q mod 3600) div 60 * 60 + (q mod 3600) mod 60" by simp
  ultimately show ?thesis using a b by linarith
qed

lemma decompose_total:
  fixes d :: int
  shows "d div 86400000 * 86400 + (d mod 86400000) div 3600000 * 3600
          + (d mod 3600000) div 60000 * 60 + (d mod 60000) div 1000 = d div 1000"
proof -
  define q where "q = d div 1000"
  have a: "d div 86400000 = q div 86400" unfolding q_def
    using zdiv_zmult2_eq[of 86400 d 1000] by simp
  have b: "(d mod 86400000) div 3600000 = (q mod 86400) div 3600"
    unfolding q_def using unit_of_seconds[of 24 3600 d] by simp
  have c: "(d mod 3600000) div 60000 = (q mod 3600) div 60"
    unfolding q_def using unit_of_seconds[of 60 60 d] by simp
  have e: "(d mod 60000) div 1000 = q mod 60"
    unfolding q_def using mod_div_ms[of 60 d] by simp
  show ?thesis unfolding a b c e q_def[symmetric] by (rule seconds_split)
qed

lemma component_floor:
  assumes "0 \<le> d"
  shows "component Days d = d div 86400000"
    and "component Hours d = (d mod 86400000) div 3600000"
    and "component Minutes d = (d mod 3600000) div 60000"
    and "component Seconds d = (d mod 60000) div 1000"
  using assms by (simp_all add: js_rem_pos Math_floor_div_eq)

lemma component_nonneg: "0 \<le> d \<Longrightarrow> 0 \<le> component f d"
  by (cases f) (simp_all add: js_rem_pos Math_floor_div_eq pos_imp_zdiv_nonneg_iff)

lemma component_total:
  assumes "0 \<le> d"
  shows "component Days d * 86400 + component Hours d * 3600
           + component Minutes d * 60 + component Seconds d = d div 1000"
  unfolding component_floor[OF assms] by (rule decompose_total)


section \<open>What one call of updateCountdown does\<close>

lemma maybe_pulse_sel:
  "targetDate (if c then pulse f s else s) = targetDate s"
  "days (if c then pulse f s else s) = days s"
  "hours (if c then pulse f s else s) = hours s"
  "minutes (if c then pulse f s else s) = minutes s"
  "seconds (if c then pulse f s else s) = seconds s"
  "prevDays (if c then pulse f s else s) = prevDays s"
  "prevHours (if c then pulse f s else s) = prevHours s"
  "prevMinutes (if c then pulse f s else s) = prevMinutes s"
  "prevSeconds (if c then pulse f s else s) = prevSeconds s"
  "lastUpdateTime (if c then pulse f s else s) = lastUpdateTime s"
  "cstate.more (if c then pulse f s else s) = cstate.more s"
  by (simp_all add: pulse_def)

lemma maybe_pulse_flag:
  "animatingElements (if c then pulse f s else s) g = (c \<and> g = f \<or> animatingElements s g)"
  by (simp add: pulse_def)

lemma maybe_pulse_timers:
  "timers (if c then pulse f s else s) = timers s @ (if c then [(200, f)] else [])"
  by (simp add: pulse_def)

lemmas uc_simps = updateCountdown_def Let_def maybe_pulse_sel

lemma uc_done:
  "targetDate s \<le> now \<Longrightarrow>
   updateCountdown now s = (True, s\<lparr> days := 0, hours := 0, minutes := 0, seconds := 0 \<rparr>)"
  by (simp add: updateCountdown_def)

lemma uc_running: "now < targetDate s \<Longrightarrow> \<not> fst (updateCountdown now s)"
  by (simp add: updateCountdown_def Let_def)

lemma uc_shown:
  "now < targetDate s \<Longrightarrow> shown f (snd (updateCountdown now s)) = component f (targetDate s - now)"
  by (cases f) (simp_all add: uc_simps)

lemma uc_prev:
  "now < targetDate s \<Longrightarrow> prev f (snd (updateCountdown now s)) = component f (targetDate s - now)"
  by (cases f) (simp_all add: uc_simps)

lemma uc_flag:
  "now < targetDate s \<Longrightarrow>
   animatingElements (snd (updateCountdown now s)) f
     = (prev f s \<noteq> component f (targetDate s - now) \<or> animatingElements s f)"
  by (cases f) (auto simp add: uc_simps maybe_pulse_flag)

lemma uc_timers:
  "now < targetDate s \<Longrightarrow>
   timers (snd (updateCountdown now s))
     = timers s @ map (Pair 200)
         (filter (\<lambda>f. prev f s \<noteq> component f (targetDate s - now)) [Days, Hours, Minutes, Seconds])"
  by (simp add: uc_simps maybe_pulse_timers)

lemma uc_target: "targetDate (snd (updateCountdown now s)) = targetDate s"
  by (simp add: uc_simps)

lemma uc_lastUpdateTime: "lastUpdateTime (snd (updateCountdown now s)) = lastUpdateTime s"
  by (simp add: uc_simps)

lemma uc_more: "cstate.more (snd (updateCountdown now s)) = cstate.more s"
  by (simp add: uc_simps)

lemma getNextFont_sel:
  "targetDate (snd (getNextFont fonts s)) = targetDate s"
  "days (snd (getNextFont fonts s)) = days s"
  "hours (snd (getNextFont fonts s)) = hours s"
  "minutes (snd (getNextFont fonts s)) = minutes s"
  "seconds (snd (getNextFont fonts s)) = seconds s"
  "prevDays (snd (getNextFont fonts s)) = prevDays s"
  "prevHours (snd (getNextFont fonts s)) = prevHours s"
  "prevMinutes (snd (getNextFont fonts s)) = prevMinutes s"
  "prevSeconds (snd (getNextFont fonts s)) = prevSeconds s"
  "lastUpdateTime (snd (getNextFont fonts s)) = lastUpdateTime s"
  "animatingElements (snd (getNextFont fonts s)) = animatingElements s"
  "timers (snd (getNextFont fonts s)) = timers s"
  by (simp_all add: getNextFont_def Let_def)

lemma if_sel:
  "targetDate (if c then a else b) = (if c then targetDate a else targetDate b)"
  "days (if c then a else b) = (if c then days a else days b)"
  "hours (if c then a else b) = (if c then hours a else hours b)"
  "minutes (if c then a else b) = (if c then minutes a else minutes b)"
  "seconds (if c then a else b) = (if c then seconds a else seconds b)"
  "prevDays (if c then a else b) = (if c then prevDays a else prevDays b)"
  "prevHours (if c then a else b) = (if c then prevHours a else prevHours b)"
  "prevMinutes (if c then a else b) = (if c then prevMinutes a else prevMinutes b)"
  "prevSeconds (if c then a else b) = (if c then prevSeconds a else prevSeconds b)"
  "lastUpdateTime (if c then a else b) = (if c then lastUpdateTime a else lastUpdateTime b)"
  "animatingElements (if c then a else b) = (if c then animatingElements a else animatingElements b)"
  "timers (if c then a else b) = (if c then timers a else timers b)"
  by simp_all

lemma pulse_sel:
  "targetDate (pulse f s) = targetDate s"
  "days (pulse f s) = days s"
  "hours (pulse f s) = hours s"
  "minutes (pulse f s) = minutes s"
  "seconds (pulse f s) = seconds s"
  "prevDays (pulse f s) = prevDays s"
  "prevHours (pulse f s) = prevHours s"
  "prevMinutes (pulse f s) = prevMinutes s"
  "prevSeconds (pulse f s) = prevSeconds s"
  "lastUpdateTime (pulse f s) = lastUpdateTime s"
  "cstate.more (pulse f s) = cstate.more s"
  by (simp_all add: pulse_def)

lemma pulse_flag: "animatingElements (pulse f s) g = (g = f \<or> animatingElements s g)"
  by (simp add: pulse_def)

lemmas ucf_simps = pulse_sel updateCountdown_font_def Let_def split_def if_sel getNextFont_sel
  maybe_pulse_sel

lemma ucf_done:
  "targetDate s \<le> now \<Longrightarrow>
   updateCountdown_font fonts now s
     = (True, s\<lparr> days := 0, hours := 0, minutes := 0, seconds := 0 \<rparr>)"
  by (simp add: updateCountdown_font_def)

lemma ucf_running: "now < targetDate s \<Longrightarrow> \<not> fst (updateCountdown_font fonts now s)"
  by (simp add: updateCountdown_font_def Let_def)

lemma ucf_shown:
  "now < targetDate s \<Longrightarrow>
   shown f (snd (updateCountdown_font fonts now s)) = component f (targetDate s - now)"
  by (cases f) (simp_all add: ucf_simps)

lemma ucf_prev:
  "now < targetDate s \<Longrightarrow>
   prev f (snd (updateCountdown_font fonts now s)) = component f (targetDate s - now)"
  by (cases f) (simp_all add: ucf_simps)

lemma ucf_target: "targetDate (snd (updateCountdown_font fonts now s)) = targetDate s"
  by (simp add: ucf_simps)

lemma ucf_flag:
  "now < targetDate s \<Longrightarrow>
   animatingElements (snd (updateCountdown_font fonts now s)) f
     = (prev f s \<noteq> component f (targetDate s - now) \<or> animatingElements s f)"
  by (cases f) (auto simp add: ucf_simps maybe_pulse_flag pulse_flag anyChanged_def)


section \<open>The font indices\<close>

lemma nextIndex_Some:
  "0 \<le> k \<Longrightarrow> fonts \<noteq> [] \<Longrightarrow>
   nextIndex fonts (Some k) = Some ((k + 1) mod int (length fonts))"
  by (simp add: nextIndex_def js_rem_pos)

lemma succ_mod_neq:
  fixes k :: int
  assumes "0 \<le> k" "k < n" "2 \<le> n"
  shows "(k + 1) mod n \<noteq> k"
proof (cases "k + 1 = n")
  case True
  then show ?thesis using assms by simp
next
  case False
  then have "k + 1 < n" using assms by simp
  then have "(k + 1) mod n = k + 1" using assms by simp
  then show ?thesis by simp
qed

lemma getNextFont_step:
  assumes "2 \<le> length fonts" "0 \<le> k" "k < int (length fonts)"
    and "currentFontIndex s = Some k"
    and "previousFontIndex s = Some k \<or> k = 0 \<and> previousFontIndex s = Some (- 1)"
  shows "getNextFont fonts s =
           (fontAt fonts (Some ((k + 1) mod int (length fonts))),
            s\<lparr> currentFontIndex := Some ((k + 1) mod int (length fonts)),
               previousFontIndex := Some ((k + 1) mod int (length fonts)) \<rparr>)"
proof -
  have ne: "fonts \<noteq> []" using assms(1) by auto
  have n1: "nextIndex fonts (Some k) = Some ((k + 1) mod int (length fonts))"
    using assms(2) ne by (rule nextIndex_Some)
  have neq: "Some ((k + 1) mod int (length fonts)) \<noteq> previousFontIndex s"
  proof (cases "previousFontIndex s = Some k")
    case True
    then show ?thesis using succ_mod_neq[of k "int (length fonts)"] assms by simp
  next
    case False
    then have "k = 0" "previousFontIndex s = Some (- 1)" using assms(5) by auto
    then show ?thesis using assms(1) by simp
  qed
  show ?thesis
    using neq by (simp add: getNextFont_def Let_def assms(4) n1)
qed

lemma getNextFont_index:
  "currentFontIndex (snd (getNextFont fonts s))
     = selectedIndex fonts (currentFontIndex s) (previousFontIndex s)"
  "previousFontIndex (snd (getNextFont fonts s))
     = selectedIndex fonts (currentFontIndex s) (previousFontIndex s)"
  "fst (getNextFont fonts s)
     = fontAt fonts (selectedIndex fonts (currentFontIndex s) (previousFontIndex s))"
  "currentFont (snd (getNextFont fonts s)) = currentFont s"
  by (auto simp add: getNextFont_def selectedIndex_def Let_def)

lemma maybe_pulse_font:
  "currentFontIndex (if c then pulse f s else s) = currentFontIndex s"
  "previousFontIndex (if c then pulse f s else s) = previousFontIndex s"
  "currentFont (if c then pulse f s else s) = currentFont s"
  by (simp_all add: pulse_def)

lemma pulse_font:
  "currentFontIndex (pulse f s) = currentFontIndex s"
  "previousFontIndex (pulse f s) = previousFontIndex s"
  "currentFont (pulse f s) = currentFont s"
  by (simp_all add: pulse_def)

lemma if_font:
  "currentFontIndex (if c then a else b) = (if c then currentFontIndex a else currentFontIndex b)"
  "previousFontIndex (if c then a else b) = (if c then previousFontIndex a else previousFontIndex b)"
  "currentFont (if c then a else b) = (if c then currentFont a else currentFont b)"
  by simp_all

lemma ucf_fonts:
  fixes fonts :: "string list" and s :: fstate and now :: int
  defines "changed \<equiv> list_ex (\<lambda>f. prev f s \<noteq> component f (targetDate s - now)) [Days, Hours, Minutes, Seconds]"
  defines "i \<equiv> selectedIndex fonts (currentFontIndex s) (previousFontIndex s)"
  assumes "now < targetDate s"
  shows "currentFontIndex (snd (updateCountdown_font fonts now s))
           = (if changed then i else currentFontIndex s)"
    and "previousFontIndex (snd (updateCountdown_font fonts now s))
           = (if changed then i else previousFontIndex s)"
    and "currentFont (snd (updateCountdown_font fonts now s))
           = (if changed then fontAt fonts i else currentFont s)"
  using assms(3) unfolding changed_def i_def
  by (simp_all add: updateCountdown_font_def Let_def split_def anyChanged_def
        getNextFont_index maybe_pulse_font pulse_font if_font)


section \<open>The remaining time\<close>

lemma uc_days: "now < targetDate s \<Longrightarrow> days (snd (updateCountdown now s)) = component Days (targetDate s - now)"
  using uc_shown[of now s Days] by simp
lemma uc_hours: "now < targetDate s \<Longrightarrow> hours (snd (updateCountdown now s)) = component Hours (targetDate s - now)"
  using uc_shown[of now s Hours] by simp
lemma uc_minutes: "now < targetDate s \<Longrightarrow> minutes (snd (updateCountdown now s)) = component Minutes (targetDate s - now)"
  using uc_shown[of now s Minutes] by simp
lemma uc_seconds: "now < targetDate s \<Longrightarrow> seconds (snd (updateCountdown now s)) = component Seconds (targetDate s - now)"
  using uc_shown[of now s Seconds] by simp

lemma ucf_days: "now < targetDate s \<Longrightarrow> days (snd (updateCountdown_font fonts now s)) = component Days (targetDate s - now)"
  using ucf_shown[of now s Days] by simp
lemma ucf_hours: "now < targetDate s \<Longrightarrow> hours (snd (updateCountdown_font fonts now s)) = component Hours (targetDate s - now)"
  using ucf_shown[of now s Hours] by simp
lemma ucf_minutes: "now < targetDate s \<Longrightarrow> minutes (snd (updateCountdown_font fonts now s)) = component Minutes (targetDate s - now)"
  using ucf_shown[of now s Minutes] by simp
lemma ucf_seconds: "now < targetDate s \<Longrightarrow> seconds (snd (updateCountdown_font fonts now s)) = component Seconds (targetDate s - now)"
  using ucf_shown[of now s Seconds] by simp

lemmas uc_fields = uc_days uc_hours uc_minutes uc_seconds
lemmas ucf_fields = ucf_days ucf_hours ucf_minutes ucf_seconds

lemma uc_total:
  "now < targetDate s \<Longrightarrow> totalSeconds (snd (updateCountdown now s)) = (targetDate s - now) div 1000"
  unfolding totalSeconds_def by (simp only: uc_fields) (rule component_total, simp)

lemma ucf_total:
  "now < targetDate s \<Longrightarrow>
   totalSeconds (snd (updateCountdown_font fonts now s)) = (targetDate s - now) div 1000"
  unfolding totalSeconds_def by (simp only: ucf_fields) (rule component_total, simp)

text \<open>
  Claim C1. For every sampling instant strictly before the target, \<open>updateCountdown\<close>
  (in both variants) sets the four fields to the floor decomposition of the difference
  in milliseconds: days is the difference divided by 86400000, hours the remainder
  modulo 86400000 divided by 3600000, minutes the remainder modulo 3600000 divided by
  60000, seconds the remainder modulo 60000 divided by 1000, each rounded down. So all
  four are non-negative integers, and the total in seconds is at most the difference in
  whole seconds, which is at most the total plus one.
\<close>

theorem updateCountdown_floor_decomposition:
  fixes s :: "'a cstate_scheme" and t :: fstate
  assumes "now < targetDate s" and "now < targetDate t"
  shows "days (snd (updateCountdown now s)) = (targetDate s - now) div 86400000
       \<and> hours (snd (updateCountdown now s)) = ((targetDate s - now) mod 86400000) div 3600000
       \<and> minutes (snd (updateCountdown now s)) = ((targetDate s - now) mod 3600000) div 60000
       \<and> seconds (snd (updateCountdown now s)) = ((targetDate s - now) mod 60000) div 1000
       \<and> 0 \<le> days (snd (updateCountdown now s)) \<and> 0 \<le> hours (snd (updateCountdown now s))
       \<and> 0 \<le> minutes (snd (updateCountdown now s)) \<and> 0 \<le> seconds (snd (updateCountdown now s))
       \<and> totalSeconds (snd (updateCountdown now s)) \<le> (targetDate s - now) div 1000
       \<and> (targetDate s - now) div 1000 \<le> totalSeconds (snd (updateCountdown now s)) + 1
       \<and> days (snd (updateCountdown_font fonts now t)) = (targetDate t - now) div 86400000
       \<and> hours (snd (updateCountdown_font fonts now t)) = ((targetDate t - now) mod 86400000) div 3600000
       \<and> minutes (snd (updateCountdown_font fonts now t)) = ((targetDate t - now) mod 3600000) div 60000
       \<and> seconds (snd (updateCountdown_font fonts now t)) = ((targetDate t - now) mod 60000) div 1000
       \<and> 0 \<le> days (snd (updateCountdown_font fonts now t))
       \<and> 0 \<le> hours (snd (updateCountdown_font fonts now t))
       \<and> 0 \<le> minutes (snd (updateCountdown_font fonts now t))
       \<and> 0 \<le> seconds (snd (updateCountdown_font fonts now t))
       \<and> totalSeconds (snd (updateCountdown_font fonts now t)) \<le> (targetDate t - now) div 1000
       \<and> (targetDate t - now) div 1000 \<le> totalSeconds (snd (updateCountdown_font fonts now t)) + 1"
proof -
  have ds: "0 \<le> targetDate s - now" and dt: "0 \<le> targetDate t - now"
    using assms by simp_all
  note fs = uc_fields[OF assms(1)] ucf_fields[OF assms(2), of fonts]
  have vals:
    "days (snd (updateCountdown now s)) = (targetDate s - now) div 86400000"
    "hours (snd (updateCountdown now s)) = ((targetDate s - now) mod 86400000) div 3600000"
    "minutes (snd (updateCountdown now s)) = ((targetDate s - now) mod 3600000) div 60000"
    "seconds (snd (updateCountdown now s)) = ((targetDate s - now) mod 60000) div 1000"
    "days (snd (updateCountdown_font fonts now t)) = (targetDate t - now) div 86400000"
    "hours (snd (updateCountdown_font fonts now t)) = ((targetDate t - now) mod 86400000) div 3600000"
    "minutes (snd (updateCountdown_font fonts now t)) = ((targetDate t - now) mod 3600000) div 60000"
    "seconds (snd (updateCountdown_font fonts now t)) = ((targetDate t - now) mod 60000) div 1000"
    by (simp_all only: fs component_floor[OF ds] component_floor[OF dt])
  have nonneg:
    "0 \<le> days (snd (updateCountdown now s))" "0 \<le> hours (snd (updateCountdown now s))"
    "0 \<le> minutes (snd (updateCountdown now s))" "0 \<le> seconds (snd (updateCountdown now s))"
    "0 \<le> days (snd (updateCountdown_font fonts now t))"
    "0 \<le> hours (snd (updateCountdown_font fonts now t))"
    "0 \<le> minutes (snd (updateCountdown_font fonts now t))"
    "0 \<le> seconds (snd (updateCountdown_font fonts now t))"
    by (simp_all only: fs component_nonneg[OF ds] component_nonneg[OF dt])
  have tot:
    "totalSeconds (snd (updateCountdown now s)) = (targetDate s - now) div 1000"
    "totalSeconds (snd (updateCountdown_font fonts now t)) = (targetDate t - now) div 1000"
    using assms by (simp_all only: uc_total ucf_total)
  show ?thesis
    unfolding tot by (intro conjI vals nonneg) simp_all
qed

lemma globals_font_sel:
  "targetDate (globals_font fonts T) = T"
  "days (globals_font fonts T) = 0" "hours (globals_font fonts T) = 0"
  "minutes (globals_font fonts T) = 0" "seconds (globals_font fonts T) = 0"
  "prevDays (globals_font fonts T) = - 1" "prevHours (globals_font fonts T) = - 1"
  "prevMinutes (globals_font fonts T) = - 1" "prevSeconds (globals_font fonts T) = - 1"
  "animatingElements (globals_font fonts T) = (\<lambda>_. False)"
  "timers (globals_font fonts T) = []"
  "lastUpdateTime (globals_font fonts T) = 0"
  "currentFontIndex (globals_font fonts T) = Some 0"
  "previousFontIndex (globals_font fonts T) = Some (- 1)"
  "currentFont (globals_font fonts T) = fontAt fonts (Some 0)"
  by (simp_all add: globals_font_def)

text \<open>
  One day, one hour, one minute, one second and 999 milliseconds before the target.
\<close>

theorem updateCountdown_floor_decomposition_witness:
  "(0::int) < targetDate (globals 90061999) \<and> 0 < targetDate (globals_font fonts_list 90061999)
   \<and> days (snd (updateCountdown 0 (globals 90061999))) = 1
   \<and> hours (snd (updateCountdown 0 (globals 90061999))) = 1
   \<and> minutes (snd (updateCountdown 0 (globals 90061999))) = 1
   \<and> seconds (snd (updateCountdown 0 (globals 90061999))) = 1
   \<and> totalSeconds (snd (updateCountdown 0 (globals 90061999))) = 90061
   \<and> days (snd (updateCountdown_font fonts_list 0 (globals_font fonts_list 90061999))) = 1
   \<and> seconds (snd (updateCountdown_font fonts_list 0 (globals_font fonts_list 90061999))) = 1"
proof -
  have h1: "(0::int) < targetDate (globals 90061999)" by (simp add: globals_def)
  have h2: "(0::int) < targetDate (globals_font fonts_list 90061999)"
    by (simp add: globals_font_sel)
  show ?thesis
    using updateCountdown_floor_decomposition[OF h1 h2, of fonts_list] h1 h2
    by (simp add: globals_def globals_font_sel totalSeconds_def)
qed


section \<open>Completion\<close>

lemma samples_done:
  "targetDate s \<le> now \<Longrightarrow> sorted (now # later) \<Longrightarrow>
   r \<in> set (samples (now # later) s) \<Longrightarrow>
   fst r \<and> days (snd r) = 0 \<and> hours (snd r) = 0 \<and> minutes (snd r) = 0 \<and> seconds (snd r) = 0"
proof (induction later arbitrary: now s)
  case Nil
  then show ?case by (simp add: uc_done)
next
  case (Cons a later)
  from Cons.prems(3) consider "r = updateCountdown now s"
    | "r \<in> set (samples (a # later) (snd (updateCountdown now s)))"
    by auto
  then show ?case
  proof cases
    case 1
    then show ?thesis using Cons.prems(1) by (simp add: uc_done)
  next
    case 2
    have "targetDate (snd (updateCountdown now s)) \<le> a"
      using Cons.prems(1,2) by (simp add: uc_target)
    moreover have "sorted (a # later)" using Cons.prems(2) by simp
    ultimately show ?thesis using 2 by (rule Cons.IH)
  qed
qed

lemma samples_font_done:
  "targetDate s \<le> now \<Longrightarrow> sorted (now # later) \<Longrightarrow>
   r \<in> set (samples_font fonts (now # later) s) \<Longrightarrow>
   fst r \<and> days (snd r) = 0 \<and> hours (snd r) = 0 \<and> minutes (snd r) = 0 \<and> seconds (snd r) = 0"
proof (induction later arbitrary: now s)
  case Nil
  then show ?case by (simp add: ucf_done)
next
  case (Cons a later)
  from Cons.prems(3) consider "r = updateCountdown_font fonts now s"
    | "r \<in> set (samples_font fonts (a # later) (snd (updateCountdown_font fonts now s)))"
    by auto
  then show ?case
  proof cases
    case 1
    then show ?thesis using Cons.prems(1) by (simp add: ucf_done)
  next
    case 2
    have "targetDate (snd (updateCountdown_font fonts now s)) \<le> a"
      using Cons.prems(1,2) by (simp add: ucf_target)
    moreover have "sorted (a # later)" using Cons.prems(2) by simp
    ultimately show ?thesis using 2 by (rule Cons.IH)
  qed
qed

text \<open>
  Claim C2. At a sampling instant at or after the target, \<open>updateCountdown\<close> (in both
  variants) sets the four fields to zero and returns that the countdown is complete;
  and with the target fixed and the clock never going back, every later call does the
  same: the fields stay zero.
\<close>

theorem complete_is_sticky:
  fixes s :: "'a cstate_scheme" and t :: fstate
  assumes "targetDate s \<le> now" and "targetDate t \<le> now" and "sorted (now # later)"
  shows "(\<forall>r \<in> set (samples (now # later) s).
            fst r \<and> days (snd r) = 0 \<and> hours (snd r) = 0 \<and> minutes (snd r) = 0
            \<and> seconds (snd r) = 0)
       \<and> (\<forall>r \<in> set (samples_font fonts (now # later) t).
            fst r \<and> days (snd r) = 0 \<and> hours (snd r) = 0 \<and> minutes (snd r) = 0
            \<and> seconds (snd r) = 0)"
  using samples_done[OF assms(1,3)] samples_font_done[OF assms(2,3)] by blast

text \<open>The target is reached at 1000; the clock is read at 1000, 1250 and 1500.\<close>

theorem complete_is_sticky_witness:
  "targetDate (globals 1000) \<le> 1000 \<and> targetDate (globals_font fonts_list 1000) \<le> 1000
   \<and> sorted [1000, 1250, 1500 :: int]
   \<and> length (samples [1000, 1250, 1500] (globals 1000)) = 3
   \<and> list_all (\<lambda>r. fst r \<and> days (snd r) = 0 \<and> hours (snd r) = 0 \<and> minutes (snd r) = 0
                     \<and> seconds (snd r) = 0)
        (samples [1000, 1250, 1500] (globals 1000))
   \<and> list_all (\<lambda>r. fst r \<and> days (snd r) = 0 \<and> hours (snd r) = 0 \<and> minutes (snd r) = 0
                     \<and> seconds (snd r) = 0)
        (samples_font fonts_list [1000, 1250, 1500] (globals_font fonts_list 1000))"
proof -
  have h1: "targetDate (globals 1000) \<le> 1000" by (simp add: globals_def)
  have h2: "targetDate (globals_font fonts_list 1000) \<le> 1000" by (simp add: globals_font_sel)
  have h3: "sorted (1000 # [1250, 1500 :: int])" by simp
  have l: "length (samples [1000, 1250, 1500] (globals 1000)) = 3" by simp
  show ?thesis
    unfolding list_all_iff
    using complete_is_sticky[OF h1 h2 h3, of fonts_list] h1 h2 h3 l by blast
qed

section \<open>Monotonicity\<close>

text \<open>
  Claim C4. Of two sampling instants before the target, the later one gives a total of
  remaining seconds that is no larger than that of the earlier one (in both variants,
  whatever the rest of the state is at the two calls).
\<close>

theorem total_seconds_monotone:
  fixes s1 s2 :: "'a cstate_scheme" and t1 t2 :: fstate
  assumes "now1 < now2"
    and "now2 < targetDate s2" and "targetDate s1 = targetDate s2"
    and "now2 < targetDate t2" and "targetDate t1 = targetDate t2"
  shows "totalSeconds (snd (updateCountdown now2 s2)) \<le> totalSeconds (snd (updateCountdown now1 s1))
       \<and> totalSeconds (snd (updateCountdown_font fonts now2 t2))
           \<le> totalSeconds (snd (updateCountdown_font fonts now1 t1))"
proof -
  have a: "now1 < targetDate s1" "now1 < targetDate t1" using assms by simp_all
  have "(targetDate s2 - now2) div 1000 \<le> (targetDate s1 - now1) div 1000"
    using assms(1,3) by (intro zdiv_mono1) simp_all
  moreover have "(targetDate t2 - now2) div 1000 \<le> (targetDate t1 - now1) div 1000"
    using assms(1,5) by (intro zdiv_mono1) simp_all
  ultimately show ?thesis
    by (simp only: uc_total[OF a(1)] uc_total[OF assms(2)] ucf_total[OF a(2)] ucf_total[OF assms(4)])
qed

text \<open>Samples taken 2500 and 1500 milliseconds before the target: 2 and 1 seconds.\<close>

theorem total_seconds_monotone_witness:
  "(0::int) < 1000 \<and> 1000 < targetDate (globals 2500) \<and> targetDate (globals 2500) = targetDate (globals 2500)
   \<and> 1000 < targetDate (globals_font fonts_list 2500)
   \<and> totalSeconds (snd (updateCountdown 1000 (globals 2500))) = 1
   \<and> totalSeconds (snd (updateCountdown 0 (globals 2500))) = 2
   \<and> totalSeconds (snd (updateCountdown 1000 (globals 2500)))
        \<le> totalSeconds (snd (updateCountdown 0 (globals 2500)))
   \<and> totalSeconds (snd (updateCountdown_font fonts_list 1000 (globals_font fonts_list 2500)))
        \<le> totalSeconds (snd (updateCountdown_font fonts_list 0 (globals_font fonts_list 2500)))"
proof -
  have h1: "(0::int) < 1000" by simp
  have h2: "1000 < targetDate (globals 2500)" by (simp add: globals_def)
  have h3: "targetDate (globals 2500) = targetDate (globals 2500)" by simp
  have h4: "1000 < targetDate (globals_font fonts_list 2500)" by (simp add: globals_font_sel)
  have h5: "targetDate (globals_font fonts_list 2500) = targetDate (globals_font fonts_list 2500)"
    by simp
  have v1: "totalSeconds (snd (updateCountdown 1000 (globals 2500))) = 1"
    by (simp add: uc_total globals_def)
  have v2: "totalSeconds (snd (updateCountdown 0 (globals 2500))) = 2"
    by (simp add: uc_total globals_def)
  show ?thesis
    using total_seconds_monotone[OF h1 h2 h3 h4 h5, of fonts_list] h2 h4 v1 v2 by simp
qed


section \<open>The two variants\<close>

lemma pulse_timers: "timers (pulse f s) = timers s @ [(200, f)]"
  by (simp add: pulse_def)

lemma ucf_timers:
  "now < targetDate s \<Longrightarrow>
   timers (snd (updateCountdown_font fonts now s))
     = timers s @ map (Pair 200)
         (filter (\<lambda>f. prev f s \<noteq> component f (targetDate s - now)) [Days, Hours, Minutes, Seconds])"
  by (simp add: ucf_simps anyChanged_def maybe_pulse_timers pulse_timers)

lemma ucf_lastUpdateTime:
  "lastUpdateTime (snd (updateCountdown_font fonts now s)) = lastUpdateTime s"
  by (simp add: ucf_simps)

lemma variants_same_state:
  fixes t :: fstate
  shows "fst (updateCountdown_font fonts now t) = fst (updateCountdown now t)"
    and "shown f (snd (updateCountdown_font fonts now t)) = shown f (snd (updateCountdown now t))"
    and "prev f (snd (updateCountdown_font fonts now t)) = prev f (snd (updateCountdown now t))"
    and "animatingElements (snd (updateCountdown_font fonts now t)) f
           = animatingElements (snd (updateCountdown now t)) f"
    and "timers (snd (updateCountdown_font fonts now t)) = timers (snd (updateCountdown now t))"
proof -
  consider "now < targetDate t" | "targetDate t \<le> now" by linarith
  then have "fst (updateCountdown_font fonts now t) = fst (updateCountdown now t)
    \<and> shown f (snd (updateCountdown_font fonts now t)) = shown f (snd (updateCountdown now t))
    \<and> prev f (snd (updateCountdown_font fonts now t)) = prev f (snd (updateCountdown now t))
    \<and> animatingElements (snd (updateCountdown_font fonts now t)) f
           = animatingElements (snd (updateCountdown now t)) f
    \<and> timers (snd (updateCountdown_font fonts now t)) = timers (snd (updateCountdown now t))"
  proof cases
    case 1
    then show ?thesis
      using uc_running[OF 1] ucf_running[OF 1, of fonts]
      by (simp add: uc_shown ucf_shown uc_prev ucf_prev uc_flag ucf_flag uc_timers ucf_timers)
  next
    case 2
    then show ?thesis by (cases f) (simp_all add: uc_done ucf_done)
  qed
  then show "fst (updateCountdown_font fonts now t) = fst (updateCountdown now t)"
    and "shown f (snd (updateCountdown_font fonts now t)) = shown f (snd (updateCountdown now t))"
    and "prev f (snd (updateCountdown_font fonts now t)) = prev f (snd (updateCountdown now t))"
    and "animatingElements (snd (updateCountdown_font fonts now t)) f
           = animatingElements (snd (updateCountdown now t)) f"
    and "timers (snd (updateCountdown_font fonts now t)) = timers (snd (updateCountdown now t))"
    by simp_all
qed

lemma uc_depends_on_target:
  fixes s :: "'a cstate_scheme" and t :: "'b cstate_scheme"
  assumes "targetDate s = targetDate t"
  shows "fst (updateCountdown now s) = fst (updateCountdown now t)"
    and "shown f (snd (updateCountdown now s)) = shown f (snd (updateCountdown now t))"
proof -
  consider "now < targetDate t" | "targetDate t \<le> now" by linarith
  then have "fst (updateCountdown now s) = fst (updateCountdown now t)
     \<and> shown f (snd (updateCountdown now s)) = shown f (snd (updateCountdown now t))"
  proof cases
    case 1
    then have "now < targetDate s" using assms by simp
    then show ?thesis
      using 1 uc_running[of now s] uc_running[of now t] assms by (simp add: uc_shown)
  next
    case 2
    then have "targetDate s \<le> now" using assms by simp
    then show ?thesis using 2 by (cases f) (simp_all add: uc_done)
  qed
  then show "fst (updateCountdown now s) = fst (updateCountdown now t)"
    and "shown f (snd (updateCountdown now s)) = shown f (snd (updateCountdown now t))"
    by simp_all
qed

text \<open>
  Claim C10. For one target and one sampling instant, \<open>updateCountdown\<close> of
  \<open>sketch.js\<close> and \<open>updateCountdown\<close> of the font-cycling variant give the same days,
  hours, minutes and seconds and the same completion flag, whatever the rest of the two
  states is. Run on the same variables, they also record the same previous values,
  raise the same flags and schedule the same timers: only the font variables differ.
\<close>

theorem variants_agree:
  fixes s :: "'a cstate_scheme" and t :: fstate
  assumes "targetDate s = targetDate t"
  shows "fst (updateCountdown now s) = fst (updateCountdown_font fonts now t)
       \<and> days (snd (updateCountdown now s)) = days (snd (updateCountdown_font fonts now t))
       \<and> hours (snd (updateCountdown now s)) = hours (snd (updateCountdown_font fonts now t))
       \<and> minutes (snd (updateCountdown now s)) = minutes (snd (updateCountdown_font fonts now t))
       \<and> seconds (snd (updateCountdown now s)) = seconds (snd (updateCountdown_font fonts now t))
       \<and> prevDays (snd (updateCountdown now t)) = prevDays (snd (updateCountdown_font fonts now t))
       \<and> prevHours (snd (updateCountdown now t)) = prevHours (snd (updateCountdown_font fonts now t))
       \<and> prevMinutes (snd (updateCountdown now t)) = prevMinutes (snd (updateCountdown_font fonts now t))
       \<and> prevSeconds (snd (updateCountdown now t)) = prevSeconds (snd (updateCountdown_font fonts now t))
       \<and> animatingElements (snd (updateCountdown now t))
            = animatingElements (snd (updateCountdown_font fonts now t))
       \<and> timers (snd (updateCountdown now t)) = timers (snd (updateCountdown_font fonts now t))"
proof -
  have a: "fst (updateCountdown now s) = fst (updateCountdown_font fonts now t)"
    using uc_depends_on_target(1)[OF assms] variants_same_state(1) by simp
  have b: "shown f (snd (updateCountdown now s)) = shown f (snd (updateCountdown_font fonts now t))" for f
    using uc_depends_on_target(2)[OF assms] variants_same_state(2) by simp
  have c: "prev f (snd (updateCountdown now t)) = prev f (snd (updateCountdown_font fonts now t))" for f
    using variants_same_state(3) by simp
  have d: "animatingElements (snd (updateCountdown now t))
            = animatingElements (snd (updateCountdown_font fonts now t))"
    using variants_same_state(4) by (intro ext) simp
  have e: "timers (snd (updateCountdown now t)) = timers (snd (updateCountdown_font fonts now t))"
    using variants_same_state(5) by simp
  show ?thesis
    using a b[of Days] b[of Hours] b[of Minutes] b[of Seconds]
      c[of Days] c[of Hours] c[of Minutes] c[of Seconds] d e
    by simp
qed

text \<open>Both variants 90061999 milliseconds before the same target.\<close>

theorem variants_agree_witness:
  "targetDate (globals 90061999) = targetDate (globals_font fonts_list 90061999)
   \<and> fst (updateCountdown 0 (globals 90061999)) = False
   \<and> days (snd (updateCountdown 0 (globals 90061999))) = 1
   \<and> fst (updateCountdown_font fonts_list 0 (globals_font fonts_list 90061999)) = False
   \<and> days (snd (updateCountdown_font fonts_list 0 (globals_font fonts_list 90061999))) = 1
   \<and> hours (snd (updateCountdown_font fonts_list 0 (globals_font fonts_list 90061999))) = 1
   \<and> minutes (snd (updateCountdown_font fonts_list 0 (globals_font fonts_list 90061999))) = 1
   \<and> seconds (snd (updateCountdown_font fonts_list 0 (globals_font fonts_list 90061999))) = 1"
proof -
  have h: "targetDate (globals 90061999) = targetDate (globals_font fonts_list 90061999)"
    by (simp add: globals_def globals_font_sel)
  have v: "fst (updateCountdown 0 (globals 90061999)) = False"
    "days (snd (updateCountdown 0 (globals 90061999))) = 1"
    "hours (snd (updateCountdown 0 (globals 90061999))) = 1"
    "minutes (snd (updateCountdown 0 (globals 90061999))) = 1"
    "seconds (snd (updateCountdown 0 (globals 90061999))) = 1"
    by (simp_all add: updateCountdown_def globals_def Let_def pulse_def
          Math_floor_div_eq js_rem_def)
  show ?thesis
    using variants_agree[OF h, of 0 fonts_list] h v by simp
qed


section \<open>Change detection\<close>

lemma fireTimer_sel:
  "targetDate (fireTimer f s) = targetDate s"
  "shown g (fireTimer f s) = shown g s"
  "prev g (fireTimer f s) = prev g s"
  "timers (fireTimer f s) = timers s"
  "animatingElements (fireTimer f s) g = (g \<noteq> f \<and> animatingElements s g)"
  by (cases g; simp add: fireTimer_def)+

lemma prev_globals: "prev f (globals T) = - 1"
  by (cases f) (simp_all add: globals_def)

text \<open>
  Claim C3, as the code has it. While the countdown is running (the call is made
  strictly before the target), \<open>updateCountdown\<close> raises the flag of a field exactly
  when the field's new value differs from the recorded previous value, schedules the
  reset timer of exactly those fields, leaves the flag of every other field as it was,
  and records the new values. So of two consecutive such calls, with the field's reset
  callback run in between, the second ends with the flag set if and only if the
  field's value differs from that of the first. On a first call made before the target
  the recorded values are the sentinel \<open>-1\<close> and all four flags are raised.
\<close>

theorem change_flags_while_running:
  fixes s :: "'a cstate_scheme"
  assumes "now1 < targetDate s" and "now2 < targetDate s"
  shows "(\<forall>f. animatingElements (snd (updateCountdown now1 s)) f
             = (prev f s \<noteq> shown f (snd (updateCountdown now1 s)) \<or> animatingElements s f))
       \<and> timers (snd (updateCountdown now1 s))
           = timers s @ map (Pair 200)
               (filter (\<lambda>f. prev f s \<noteq> shown f (snd (updateCountdown now1 s)))
                  [Days, Hours, Minutes, Seconds])
       \<and> (\<forall>f. prev f (snd (updateCountdown now1 s)) = shown f (snd (updateCountdown now1 s)))
       \<and> (\<forall>f. animatingElements
                 (snd (updateCountdown now2 (fireTimer f (snd (updateCountdown now1 s))))) f
             = (shown f (snd (updateCountdown now2 (fireTimer f (snd (updateCountdown now1 s)))))
                  \<noteq> shown f (snd (updateCountdown now1 s))))
       \<and> (\<forall>f. animatingElements (snd (updateCountdown now1 (globals (targetDate s)))) f)"
proof -
  let ?s1 = "snd (updateCountdown now1 s)"
  have a: "animatingElements ?s1 f = (prev f s \<noteq> shown f ?s1 \<or> animatingElements s f)" for f
    using assms(1) by (simp add: uc_flag uc_shown)
  have b: "timers ?s1 = timers s @ map (Pair 200)
               (filter (\<lambda>f. prev f s \<noteq> shown f ?s1) [Days, Hours, Minutes, Seconds])"
    using assms(1) by (simp only: uc_timers uc_shown)
  have c: "prev f ?s1 = shown f ?s1" for f
    using assms(1) by (simp add: uc_prev uc_shown)
  have d: "animatingElements (snd (updateCountdown now2 (fireTimer f ?s1))) f
             = (shown f (snd (updateCountdown now2 (fireTimer f ?s1))) \<noteq> shown f ?s1)" for f
  proof -
    have t: "now2 < targetDate (fireTimer f ?s1)"
      using assms(2) by (simp add: fireTimer_sel uc_target)
    show ?thesis
      using c[of f] by (auto simp add: uc_flag[OF t] uc_shown[OF t] fireTimer_sel)
  qed
  have e: "animatingElements (snd (updateCountdown now1 (globals (targetDate s)))) f" for f
  proof -
    have t: "now1 < targetDate (globals (targetDate s))"
      using assms(1) by (simp add: globals_def)
    have "0 \<le> component f (targetDate (globals (targetDate s)) - now1)"
      using t by (intro component_nonneg) simp
    then show ?thesis by (simp add: uc_flag[OF t] prev_globals)
  qed
  show ?thesis using a b c d e by blast
qed

text \<open>
  Calls 5000 and 4000 milliseconds before the target: the first raises all four flags;
  at the second the seconds go from 5 to 4 and the days stay 0.
\<close>

theorem change_flags_while_running_witness:
  "(0::int) < targetDate (globals 5000) \<and> 1000 < targetDate (globals 5000)
   \<and> seconds (snd (updateCountdown 0 (globals 5000))) = 5
   \<and> seconds (snd (updateCountdown 1000 (fireTimer Seconds (snd (updateCountdown 0 (globals 5000)))))) = 4
   \<and> animatingElements
        (snd (updateCountdown 1000 (fireTimer Seconds (snd (updateCountdown 0 (globals 5000)))))) Seconds
   \<and> days (snd (updateCountdown 1000 (fireTimer Days (snd (updateCountdown 0 (globals 5000)))))) = 0
   \<and> \<not> animatingElements
        (snd (updateCountdown 1000 (fireTimer Days (snd (updateCountdown 0 (globals 5000)))))) Days
   \<and> (\<forall>f. animatingElements (snd (updateCountdown 0 (globals 5000))) f)"
proof -
  have h1: "(0::int) < targetDate (globals 5000)" by (simp add: globals_def)
  have h2: "(1000::int) < targetDate (globals 5000)" by (simp add: globals_def)
  have t: "targetDate (globals 5000) = 5000" by (simp add: globals_def)
  have v: "seconds (snd (updateCountdown 0 (globals 5000))) = 5"
    "days (snd (updateCountdown 0 (globals 5000))) = 0"
    "seconds (snd (updateCountdown 1000 (fireTimer Seconds (snd (updateCountdown 0 (globals 5000)))))) = 4"
    "days (snd (updateCountdown 1000 (fireTimer Days (snd (updateCountdown 0 (globals 5000)))))) = 0"
    by (simp_all add: updateCountdown_def globals_def Let_def pulse_def fireTimer_def
          Math_floor_div_eq js_rem_def)
  from change_flags_while_running[OF h1 h2]
  have "\<forall>f. animatingElements
                 (snd (updateCountdown 1000 (fireTimer f (snd (updateCountdown 0 (globals 5000)))))) f
             = (shown f (snd (updateCountdown 1000 (fireTimer f (snd (updateCountdown 0 (globals 5000))))))
                  \<noteq> shown f (snd (updateCountdown 0 (globals 5000))))"
    and "\<forall>f. animatingElements (snd (updateCountdown 0 (globals 5000))) f"
    unfolding t by blast+
  then have "animatingElements
        (snd (updateCountdown 1000 (fireTimer Seconds (snd (updateCountdown 0 (globals 5000)))))) Seconds"
    and "\<not> animatingElements
        (snd (updateCountdown 1000 (fireTimer Days (snd (updateCountdown 0 (globals 5000)))))) Days"
    and "\<forall>f. animatingElements (snd (updateCountdown 0 (globals 5000))) f"
    using v by (simp_all del: split_paired_All)
  then show ?thesis using h1 h2 v by blast
qed

text \<open>
  The claim as it is stated fails on a call that finds the target reached. The call
  at 0, 1000 milliseconds before the target, shows 1 second; the next call, at 1000,
  shows 0 seconds, and the flag of the seconds is not set. And a first call that finds
  the target reached shows 0 against the sentinel \<open>-1\<close> and sets no flag.
\<close>

theorem change_flags_counterexample:
  "seconds (snd (updateCountdown 1000 (fireTimer Seconds (snd (updateCountdown 0 (globals 1000))))))
     \<noteq> seconds (snd (updateCountdown 0 (globals 1000)))
   \<and> \<not> animatingElements
        (snd (updateCountdown 1000 (fireTimer Seconds (snd (updateCountdown 0 (globals 1000)))))) Seconds
   \<and> seconds (snd (updateCountdown 1000 (globals 1000))) \<noteq> prevSeconds (globals 1000)
   \<and> \<not> animatingElements (snd (updateCountdown 1000 (globals 1000))) Seconds"
  by (simp add: updateCountdown_def globals_def Let_def pulse_def fireTimer_def
        Math_floor_div_eq js_rem_def)


section \<open>The call that finds the target reached\<close>

text \<open>
  Claim C9. When \<open>updateCountdown\<close> is called with the target reached (the difference
  is zero or negative) it sets the four display fields to zero and returns at once:
  the recorded previous values, every flag of \<open>animatingElements\<close>, the scheduled
  timers and, in the font-cycling variant, the font indices and the font in use keep
  their values. The result state is the given one with the four fields zeroed, so the
  call that first reaches zero raises no flag and selects no font.
\<close>

theorem complete_call_frame:
  fixes s :: "'a cstate_scheme" and t :: fstate
  assumes "targetDate s \<le> now" and "targetDate t \<le> now"
  shows "updateCountdown now s
           = (True, s\<lparr> days := 0, hours := 0, minutes := 0, seconds := 0 \<rparr>)
       \<and> prevDays (snd (updateCountdown now s)) = prevDays s
       \<and> prevHours (snd (updateCountdown now s)) = prevHours s
       \<and> prevMinutes (snd (updateCountdown now s)) = prevMinutes s
       \<and> prevSeconds (snd (updateCountdown now s)) = prevSeconds s
       \<and> animatingElements (snd (updateCountdown now s)) = animatingElements s
       \<and> timers (snd (updateCountdown now s)) = timers s
       \<and> updateCountdown_font fonts now t
           = (True, t\<lparr> days := 0, hours := 0, minutes := 0, seconds := 0 \<rparr>)
       \<and> prevDays (snd (updateCountdown_font fonts now t)) = prevDays t
       \<and> prevHours (snd (updateCountdown_font fonts now t)) = prevHours t
       \<and> prevMinutes (snd (updateCountdown_font fonts now t)) = prevMinutes t
       \<and> prevSeconds (snd (updateCountdown_font fonts now t)) = prevSeconds t
       \<and> animatingElements (snd (updateCountdown_font fonts now t)) = animatingElements t
       \<and> timers (snd (updateCountdown_font fonts now t)) = timers t
       \<and> currentFontIndex (snd (updateCountdown_font fonts now t)) = currentFontIndex t
       \<and> previousFontIndex (snd (updateCountdown_font fonts now t)) = previousFontIndex t
       \<and> currentFont (snd (updateCountdown_font fonts now t)) = currentFont t"
  by (simp add: uc_done[OF assms(1)] ucf_done[OF assms(2)])

text \<open>
  The call at 1000 that first reaches the target 1000, after a call at 0 that showed 1
  second and selected the font at index 1: the seconds go to 0, the recorded previous
  value stays 1, no flag is raised and the index stays 1.
\<close>

theorem complete_call_frame_witness:
  "targetDate (fireTimer Seconds (snd (updateCountdown 0 (globals 1000)))) \<le> 1000
   \<and> targetDate (fireTimer Seconds (snd (updateCountdown_font fonts_list 0 (globals_font fonts_list 1000)))) \<le> 1000
   \<and> seconds (fireTimer Seconds (snd (updateCountdown 0 (globals 1000)))) = 1
   \<and> seconds (snd (updateCountdown 1000 (fireTimer Seconds (snd (updateCountdown 0 (globals 1000)))))) = 0
   \<and> prevSeconds (snd (updateCountdown 1000 (fireTimer Seconds (snd (updateCountdown 0 (globals 1000)))))) = 1
   \<and> \<not> animatingElements
         (snd (updateCountdown 1000 (fireTimer Seconds (snd (updateCountdown 0 (globals 1000)))))) Seconds
   \<and> currentFontIndex (snd (updateCountdown_font fonts_list 1000
         (fireTimer Seconds (snd (updateCountdown_font fonts_list 0 (globals_font fonts_list 1000))))))
       = Some 1
   \<and> seconds (snd (updateCountdown_font fonts_list 1000
         (fireTimer Seconds (snd (updateCountdown_font fonts_list 0 (globals_font fonts_list 1000))))))
       = 0"
proof -
  let ?s = "fireTimer Seconds (snd (updateCountdown 0 (globals 1000)))"
  let ?t = "fireTimer Seconds (snd (updateCountdown_font fonts_list 0 (globals_font fonts_list 1000)))"
  have h1: "targetDate ?s \<le> 1000"
    by (simp add: fireTimer_sel uc_target globals_def)
  have h2: "targetDate ?t \<le> 1000"
    by (simp add: fireTimer_sel ucf_target globals_font_sel)
  have v: "seconds ?s = 1" "prevSeconds ?s = 1" "\<not> animatingElements ?s Seconds"
    by (simp_all add: updateCountdown_def globals_def Let_def pulse_def fireTimer_def
          Math_floor_div_eq js_rem_def)
  have i0: "selectedIndex fonts_list (Some 0) (Some (- 1)) = Some 1"
    by (simp add: selectedIndex_def nextIndex_def fonts_list_def js_rem_def)
  have w: "currentFontIndex ?t = Some 1"
    using ucf_fonts(1)[of 0 "globals_font fonts_list 1000" fonts_list]
    by (simp add: fireTimer_def globals_font_sel i0 Math_floor_div_eq js_rem_def)
  show ?thesis
    using complete_call_frame[OF h1 h2, of fonts_list] h1 h2 v w by simp
qed


section \<open>Zero padding\<close>

lemma concat_replicate_single: "concat (replicate k [c]) = replicate k c"
  by (induction k) simp_all

lemma padStart_zero:
  "padStart str w ''0'' = replicate (w - length str) CHR ''0'' @ str"
  by (simp add: padStart_def concat_replicate_single)

lemma length_digits10_small: "n < 10 \<Longrightarrow> length (digits10 n) = 1"
  by (simp add: digits10.simps)

lemma length_digits10_pos: "0 < length (digits10 n)"
  by (subst digits10.simps) simp

lemma length_digits10_large: "10 \<le> n \<Longrightarrow> 2 \<le> length (digits10 n)"
  using length_digits10_pos[of "n div 10"] by (subst digits10.simps) (simp add: Suc_le_eq)

text \<open>
  Claim C7. For every non-negative integer \<open>n\<close>, \<open>pad(n)\<close> with the default width 2 is
  the decimal string of \<open>n\<close> with zeros put in front up to a length of at least 2, and
  nothing is cut: below 10 one zero is added, from 10 on the string is unchanged.
  \<open>pad(5)\<close> is \<open>05\<close>, \<open>pad(42)\<close> is \<open>42\<close> and \<open>pad(100)\<close> is \<open>100\<close>.
\<close>

theorem pad_minimum_width:
  assumes "0 \<le> n"
  shows "2 \<le> length (pad n 2)
       \<and> pad n 2 = replicate (2 - length (String_num n)) CHR ''0'' @ String_num n
       \<and> pad n 2 = (if n < 10 then CHR ''0'' # String_num n else String_num n)
       \<and> pad 5 2 = ''05'' \<and> pad 42 2 = ''42'' \<and> pad 100 2 = ''100''"
proof -
  have s: "String_num n = digits10 (nat n)" using assms by (simp add: String_num_def)
  have a: "pad n 2 = replicate (2 - length (String_num n)) CHR ''0'' @ String_num n"
    by (simp add: pad_def padStart_zero)
  have b: "pad n 2 = (if n < 10 then CHR ''0'' # String_num n else String_num n)"
  proof (cases "n < 10")
    case True
    then have "length (String_num n) = 1"
      using assms by (simp add: s length_digits10_small)
    then show ?thesis using True by (simp add: a)
  next
    case False
    then have "2 \<le> length (String_num n)"
      using assms by (simp add: s length_digits10_large)
    then show ?thesis using False by (simp add: a)
  qed
  have c: "2 \<le> length (pad n 2)"
    using length_digits10_pos[of "nat n"] by (simp add: a s)
  have d: "pad 5 2 = ''05''" "pad 42 2 = ''42''" "pad 100 2 = ''100''"
    by (simp_all add: pad_def padStart_def String_num_def digits10.simps digit_char_def)
  show ?thesis using a b c d by blast
qed

theorem pad_minimum_width_witness:
  "(0::int) \<le> 7 \<and> pad 7 2 = ''07'' \<and> length (pad 7 2) = 2"
proof -
  have h: "(0::int) \<le> 7" by simp
  have "String_num 7 = ''7''"
    by (simp add: String_num_def digits10.simps digit_char_def)
  then show ?thesis using pad_minimum_width[OF h] by simp
qed

section \<open>The sampling throttle\<close>

lemma draw_lastUpdateTime:
  "lastUpdateTime (snd (draw ms clock s))
     = (if 250 \<le> ms - lastUpdateTime s then ms else lastUpdateTime s)"
  by (simp add: draw_def updateInterval_def split_def Let_def)

lemma draw_sampled: "(fst (draw ms clock s) \<noteq> None) = (250 \<le> ms - lastUpdateTime s)"
  by (simp add: draw_def updateInterval_def split_def Let_def)

lemma sampleTimes_Cons:
  "sampleTimes ((ms, clock) # frames) s =
     (if 250 \<le> ms - lastUpdateTime s then ms # sampleTimes frames (snd (draw ms clock s))
      else sampleTimes frames (snd (draw ms clock s)))"
  using draw_sampled[of ms clock s] by (auto split: option.splits)

lemma sampleTimes_spaced:
  "successively (\<lambda>a b. 250 \<le> b - a) (lastUpdateTime s # sampleTimes frames s)"
proof (induction frames arbitrary: s)
  case Nil
  show ?case by simp
next
  case (Cons fr frames)
  obtain ms clock where fr: "fr = (ms, clock)" by (cases fr)
  show ?case
  proof (cases "250 \<le> ms - lastUpdateTime s")
    case True
    then have "lastUpdateTime (snd (draw ms clock s)) = ms"
      by (simp add: draw_lastUpdateTime)
    then have "successively (\<lambda>a b. 250 \<le> b - a) (ms # sampleTimes frames (snd (draw ms clock s)))"
      using Cons.IH[of "snd (draw ms clock s)"] by simp
    then show ?thesis using True by (simp add: fr sampleTimes_Cons del: sampleTimes.simps)
  next
    case False
    then have "lastUpdateTime (snd (draw ms clock s)) = lastUpdateTime s"
      by (simp add: draw_lastUpdateTime)
    then show ?thesis
      using Cons.IH[of "snd (draw ms clock s)"] False
      by (simp add: fr sampleTimes_Cons del: sampleTimes.simps)
  qed
qed

text \<open>
  Claim C8. In \<open>draw\<close> (of both variants) \<open>updateCountdown\<close> is called on a frame if and
  only if the reading of \<open>millis()\<close> is at least 250 above the stored
  \<open>lastUpdateTime\<close>, which then becomes that reading; on every other frame the state,
  and with it the four sampled fields, is left as it is. So the readings at which
  consecutive samples are taken are at least 250 apart.
\<close>

theorem draw_throttle:
  fixes s :: "'a cstate_scheme" and t :: fstate
  shows "(fst (draw now clock s) \<noteq> None) = (250 \<le> now - lastUpdateTime s)
       \<and> (250 \<le> now - lastUpdateTime s \<longrightarrow>
            draw now clock s = (Some (fst (updateCountdown clock s)),
                                (snd (updateCountdown clock s))\<lparr> lastUpdateTime := now \<rparr>))
       \<and> (now - lastUpdateTime s < 250 \<longrightarrow> draw now clock s = (None, s))
       \<and> (fst (draw_font fonts now clock t) \<noteq> None) = (250 \<le> now - lastUpdateTime t)
       \<and> (250 \<le> now - lastUpdateTime t \<longrightarrow>
            draw_font fonts now clock t
              = (Some (fst (updateCountdown_font fonts clock t)),
                 (snd (updateCountdown_font fonts clock t))\<lparr> lastUpdateTime := now \<rparr>))
       \<and> (now - lastUpdateTime t < 250 \<longrightarrow> draw_font fonts now clock t = (None, t))
       \<and> successively (\<lambda>a b. 250 \<le> b - a) (lastUpdateTime s # sampleTimes frames s)"
  using sampleTimes_spaced[of s frames]
  by (simp add: draw_def draw_font_def updateInterval_def split_def Let_def)

text \<open>
  Frames at 100, 250, 300, 499 and 500 milliseconds after a start with the watermark
  at 0: the frames at 250 and 500 sample, the others do not.
\<close>

theorem draw_throttle_witness:
  "sampleTimes [(100, 0), (250, 0), (300, 50), (499, 249), (500, 250)] (globals 100000)
     = [250, 500]
   \<and> draw 100 0 (globals 100000) = (None, globals 100000)
   \<and> fst (draw 250 0 (globals 100000)) = Some False
   \<and> seconds (snd (draw 250 0 (globals 100000))) = 40
   \<and> lastUpdateTime (snd (draw 250 0 (globals 100000))) = 250
   \<and> draw_font fonts_list 100 0 (globals_font fonts_list 100000)
       = (None, globals_font fonts_list 100000)"
proof -
  have l: "lastUpdateTime (globals 100000) = 0" by (simp add: globals_def)
  have lf: "lastUpdateTime (globals_font fonts_list 100000) = 0" by (simp add: globals_font_sel)
  have st: "sampleTimes [(100, 0), (250, 0), (300, 50), (499, 249), (500, 250)] (globals 100000)
     = [250, 500]"
    by (simp add: sampleTimes_Cons draw_lastUpdateTime l del: sampleTimes.simps(2))
  have v: "seconds (snd (updateCountdown 0 (globals 100000))) = 40"
    "fst (updateCountdown 0 (globals 100000)) = False"
    by (simp_all add: updateCountdown_def globals_def Let_def pulse_def
          Math_floor_div_eq js_rem_def)
  have a: "draw 100 0 (globals 100000) = (None, globals 100000)"
    and b: "draw_font fonts_list 100 0 (globals_font fonts_list 100000)
              = (None, globals_font fonts_list 100000)"
    using draw_throttle[of 100 0 "globals 100000" fonts_list "globals_font fonts_list 100000" "[]"]
    by (simp_all add: l lf)
  have c: "draw 250 0 (globals 100000)
             = (Some False, (snd (updateCountdown 0 (globals 100000)))\<lparr> lastUpdateTime := 250 \<rparr>)"
    using draw_throttle[of 250 0 "globals 100000" fonts_list "globals_font fonts_list 100000" "[]"]
    by (simp add: l v)
  have d: "fst (draw 250 0 (globals 100000)) = Some False"
    "seconds (snd (draw 250 0 (globals 100000))) = 40"
    "lastUpdateTime (snd (draw 250 0 (globals 100000))) = 250"
    unfolding c by (simp_all add: v)
  show ?thesis
    by (intro conjI st a b d)
qed


section \<open>The target\<close>

lemma draw_target: "targetDate (snd (draw ms clock s)) = targetDate s"
  by (simp add: draw_def split_def Let_def uc_target)

lemma run_target: "targetDate (run events s) = targetDate s"
proof (induction events arbitrary: s)
  case Nil
  show ?case by simp
next
  case (Cons e events)
  show ?case
  proof (cases e)
    case (Frame ms clock)
    then show ?thesis by (simp add: Cons.IH draw_target)
  next
    case (Timeout f)
    then show ?thesis by (simp add: Cons.IH fireTimer_sel)
  qed
qed

text \<open>
  Claim C6. In \<open>sketch.js\<close> the target is resolved once, in \<open>setup\<close>, by
  \<open>getTargetDate\<close>: it is local midnight of April 11 of the year of the startup
  instant, unless that instant lies before the startup instant, and then it is local
  midnight of April 11 of the following year. No frame and no timer callback changes it
  afterwards.
\<close>

theorem target_resolved_once:
  "getTargetDate host t0
     = (if mkDate host (getFullYear host t0) 3 11 < t0
        then mkDate host (getFullYear host t0 + 1) 3 11
        else mkDate host (getFullYear host t0) 3 11)
   \<and> targetDate (setup_sketch host t0 t1) = getTargetDate host t0
   \<and> targetDate (run events (setup_sketch host t0 t1)) = getTargetDate host t0"
  by (simp add: run_target setup_sketch_def uc_target getTargetDate_def Let_def globals_def)

text \<open>
  In UTC: started at 2025-04-10 23:59:59 the target is 2025-04-11 00:00:00, and the
  first sample shows one second; started at 2025-05-01 00:00:00 the target is
  2026-04-11 00:00:00. Frames and a timer callback leave the target as it is.
\<close>

theorem target_resolved_once_witness:
  "getTargetDate utcHost 1744329599000 = 1744329600000
   \<and> getTargetDate utcHost 1746057600000 = 1775865600000
   \<and> targetDate (setup_sketch utcHost 1744329599000 1744329599000) = 1744329600000
   \<and> seconds (setup_sketch utcHost 1744329599000 1744329599000) = 1
   \<and> targetDate (run [Frame 250 1744329599250, Timeout Seconds, Frame 1000 1744329600000]
        (setup_sketch utcHost 1744329599000 1744329599000)) = 1744329600000"
proof -
  have y: "getFullYear utcHost 1744329599000 = 2025" "getFullYear utcHost 1746057600000 = 2025"
    by code_simp+
  have m: "mkDate utcHost 2025 3 11 = 1744329600000" "mkDate utcHost 2026 3 11 = 1775865600000"
    by (simp_all add: utcHost_def daysFromCivil_def Let_def)
  have g: "getTargetDate utcHost 1744329599000 = 1744329600000"
    "getTargetDate utcHost 1746057600000 = 1775865600000"
    using target_resolved_once[of utcHost 1744329599000]
      target_resolved_once[of utcHost 1746057600000]
    by (simp_all add: y m)
  have s: "seconds (setup_sketch utcHost 1744329599000 1744329599000) = 1"
    by (simp add: setup_sketch_def g updateCountdown_def globals_def Let_def pulse_def
          Math_floor_div_eq js_rem_def)
  have r: "targetDate (setup_sketch utcHost 1744329599000 1744329599000)
             = getTargetDate utcHost 1744329599000"
    "targetDate (run [Frame 250 1744329599250, Timeout Seconds, Frame 1000 1744329600000]
        (setup_sketch utcHost 1744329599000 1744329599000)) = getTargetDate utcHost 1744329599000"
    using target_resolved_once[of utcHost 1744329599000 1744329599000
        "[Frame 250 1744329599250, Timeout Seconds, Frame 1000 1744329600000]"]
    by blast+
  show ?thesis
    unfolding r by (intro conjI g s)
qed


section \<open>The font cycle\<close>













end
